theory Spec2Isabelle
  imports Main
begin

section \<open>Values exchanged with the HTTP API and observable effects\<close>

text \<open>
  Both components call the backend through axios inside \<^verbatim>\<open>try/catch/finally\<close>.
  An awaited request either rejects (transport failure, or anything else that throws
  inside the \<^verbatim>\<open>try\<close> block) and control enters the \<^verbatim>\<open>catch\<close> block with the error,
  or it resolves with a response body.
\<close>

datatype 'a outcome = Rejected string | Resolved 'a

text \<open>
  Body of the GET endpoints, \<^verbatim>\<open>{success, data}\<close>. The handlers store the \<^verbatim>\<open>data\<close>
  member as it comes.
\<close>

datatype 'd api_response = ApiResponse (success: bool) (data: 'd)

text \<open>Body of POST /api/wifi/connect, \<^verbatim>\<open>{success, message?}\<close>.\<close>

datatype connect_response = ConnectResponse (connect_success: bool) (message: "string option")

text \<open>
  What a handler does besides updating the component state, in program order:
  requests issued, \<^verbatim>\<open>console.error\<close> calls (label and error) and blocking \<^verbatim>\<open>alert\<close>s.
\<close>

datatype effect =
    HttpGet string
  | HttpPost string string string
  | ConsoleError string string
  | Alert string

fun is_alert :: "effect \<Rightarrow> bool" where
  "is_alert (Alert _) = True"
| "is_alert _ = False"

fun is_log :: "effect \<Rightarrow> bool" where
  "is_log (ConsoleError _ _) = True"
| "is_log _ = False"

definition API_BASE :: string where
  "API_BASE = ''/api''"

text \<open>
  \<^verbatim>\<open>a || b\<close> on an optional string: the right operand is taken when the left one is
  falsy, that is undefined, null or the empty string.
\<close>

definition or_else :: "string option \<Rightarrow> string \<Rightarrow> string" where
  "or_else a b = (case a of None \<Rightarrow> b | Some v \<Rightarrow> if v = [] then b else v)"

section \<open>WiFiStatus.jsx\<close>

record wifi_status_data =
  status_connected :: bool
  status_ssid :: "string option"

record network_entry =
  ssid :: string
  signal :: int
  security :: string
  connected :: bool

text \<open>The nine \<^verbatim>\<open>useState\<close> cells of the component, with their initial values.\<close>

record wifi_state =
  wifiStatus :: "wifi_status_data option"
  networks :: "network_entry list"
  initialLoading :: bool
  loading :: bool
  scanning :: bool
  showNetworkList :: bool
  connecting :: bool
  selectedNetwork :: "network_entry option"
  password :: string

definition wifi_initial :: wifi_state where
  "wifi_initial = \<lparr> wifiStatus = None, networks = [], initialLoading = True,
     loading = False, scanning = False, showNetworkList = False, connecting = False,
     selectedNetwork = None, password = [] \<rparr>"

text \<open>
  \<^verbatim>\<open>fetchWiFiStatus\<close>: the argument is the outcome of the awaited GET (a null or missing
  \<^verbatim>\<open>data\<close> member is \<open>None\<close>, the value of the state cell before the first poll). The snapshot is
  written only under \<^verbatim>\<open>if (response.data.success)\<close>; there is no \<^verbatim>\<open>else\<close>. The
  \<^verbatim>\<open>catch\<close> block only logs. \<^verbatim>\<open>finally\<close> resets \<^verbatim>\<open>initialLoading\<close>.
\<close>

definition fetchWiFiStatus ::
  "wifi_status_data option api_response outcome \<Rightarrow> wifi_state \<Rightarrow>
   wifi_state \<times> effect list" where
  "fetchWiFiStatus r s =
     (case r of
        Resolved response \<Rightarrow>
          ((if success response then s\<lparr>wifiStatus := data response\<rparr> else s)
             \<lparr>initialLoading := False\<rparr>,
           [HttpGet (API_BASE @ ''/wifi/status'')])
      | Rejected error \<Rightarrow>
          (s\<lparr>initialLoading := False\<rparr>,
           [HttpGet (API_BASE @ ''/wifi/status''),
            ConsoleError ''Failed to fetch WiFi status:'' error]))"

text \<open>
  \<^verbatim>\<open>scanNetworks\<close>. The \<^verbatim>\<open>data\<close> member of a successful body is the array of entries,
  kept in the order the server returned it.
\<close>

definition scanNetworks ::
  "network_entry list api_response outcome \<Rightarrow> wifi_state \<Rightarrow> wifi_state \<times> effect list" where
  "scanNetworks r s =
     (let s1 = s\<lparr>scanning := True\<rparr> in
      case r of
        Resolved response \<Rightarrow>
          ((if success response
            then s1\<lparr>networks := data response, showNetworkList := True\<rparr>
            else s1)\<lparr>scanning := False\<rparr>,
           [HttpGet (API_BASE @ ''/wifi/networks'')])
      | Rejected error \<Rightarrow>
          (s1\<lparr>scanning := False\<rparr>,
           [HttpGet (API_BASE @ ''/wifi/networks''),
            ConsoleError ''Failed to scan networks:'' error]))"

text \<open>
  \<^verbatim>\<open>connectToNetwork\<close>: \<open>r\<close> is the outcome of the POST and \<open>rs\<close> the outcome of the
  status GET that the success branch awaits. The request body is
  \<^verbatim>\<open>{ssid: selectedNetwork.ssid, password}\<close>, the second and third argument of
  \<open>HttpPost\<close>. \<^verbatim>\<open>fetchWiFiStatus\<close> catches its own errors, so nothing it does reaches
  the \<^verbatim>\<open>catch\<close> block here.
\<close>

definition connectToNetwork ::
  "connect_response outcome \<Rightarrow> wifi_status_data option api_response outcome \<Rightarrow>
   wifi_state \<Rightarrow> wifi_state \<times> effect list" where
  "connectToNetwork r rs s =
     (case selectedNetwork s of
        None \<Rightarrow> (s, [])
      | Some n \<Rightarrow>
          (let s1 = s\<lparr>connecting := True\<rparr>;
               post = HttpPost (API_BASE @ ''/wifi/connect'') (ssid n) (password s)
           in case r of
                Resolved response \<Rightarrow>
                  if connect_success response then
                    (let s2 = s1\<lparr>selectedNetwork := None, password := [],
                                  showNetworkList := False\<rparr>;
                         f = fetchWiFiStatus rs s2
                     in ((fst f)\<lparr>connecting := False\<rparr>, post # snd f))
                  else
                    (s1\<lparr>connecting := False\<rparr>,
                     [post, Alert (or_else (message response) ''Failed to connect'')])
              | Rejected error \<Rightarrow>
                  (s1\<lparr>connecting := False\<rparr>,
                   [post, ConsoleError ''Connection failed:'' error,
                    Alert ''Failed to connect to network''])))"

text \<open>
  \<^verbatim>\<open>getSignalIcon\<close>. The icons are strings of block elements outside ASCII; they are
  given as their Unicode code points (U+2582, U+2584, U+2586, U+2588).
\<close>

definition getSignalIcon :: "int \<Rightarrow> nat list" where
  "getSignalIcon sig =
     (if sig \<ge> 75 then [0x2582, 0x2584, 0x2586, 0x2588]
      else if sig \<ge> 50 then [0x2582, 0x2584, 0x2586]
      else if sig \<ge> 25 then [0x2582, 0x2584]
      else [0x2582])"

definition full_bars :: "nat list" where
  "full_bars = [0x2582, 0x2584, 0x2586, 0x2588]"

definition three_quarter_bars :: "nat list" where
  "three_quarter_bars = [0x2582, 0x2584, 0x2586]"

definition half_bars :: "nat list" where
  "half_bars = [0x2582, 0x2584]"

definition minimal_bars :: "nat list" where
  "minimal_bars = [0x2582]"

subsection \<open>Event handlers and guards of the rendered tree\<close>

text \<open>
  Each row of the list has \<^verbatim>\<open>onClick={() => setSelectedNetwork(network)}\<close>, whatever
  the row's \<^verbatim>\<open>connected\<close> flag.
\<close>

definition onClick_network :: "network_entry \<Rightarrow> wifi_state \<Rightarrow> wifi_state" where
  "onClick_network network s = s\<lparr>selectedNetwork := Some network\<rparr>"

text \<open>The Cancel button of the credential form.\<close>

definition onClick_cancel :: "wifi_state \<Rightarrow> wifi_state" where
  "onClick_cancel s = s\<lparr>selectedNetwork := None, password := []\<rparr>"

text \<open>\<^verbatim>\<open>onChange\<close> of the password input.\<close>

definition onChange_password :: "string \<Rightarrow> wifi_state \<Rightarrow> wifi_state" where
  "onChange_password v s = s\<lparr>password := v\<rparr>"

text \<open>
  The list block is rendered under \<^verbatim>\<open>showNetworkList &&\<close>, after the early return of
  the loading skeleton; the rows are rendered when the list is not empty.
\<close>

definition listShown :: "wifi_state \<Rightarrow> bool" where
  "listShown s = (\<not> initialLoading s \<and> showNetworkList s)"

definition rowShown :: "network_entry \<Rightarrow> wifi_state \<Rightarrow> bool" where
  "rowShown network s = (listShown s \<and> network \<in> set (networks s))"

text \<open>
  The credential form (password input, Cancel, Connect) is inside the list block, under
  \<^verbatim>\<open>selectedNetwork && !selectedNetwork.connected &&\<close>.
\<close>

definition credentialFormShown :: "wifi_state \<Rightarrow> bool" where
  "credentialFormShown s =
     (listShown s \<and>
      (case selectedNetwork s of None \<Rightarrow> False | Some n \<Rightarrow> \<not> connected n))"

subsection \<open>Sample states of the network selector\<close>

definition home_net :: network_entry where
  "home_net = \<lparr> ssid = ''HomeNet'', signal = 80, security = ''WPA2'', connected = True \<rparr>"

definition cafe_net :: network_entry where
  "cafe_net = \<lparr> ssid = ''Cafe'', signal = 55, security = ''WPA2'', connected = False \<rparr>"

definition lab_net :: network_entry where
  "lab_net = \<lparr> ssid = ''Lab'', signal = 30, security = ''WPA3'', connected = False \<rparr>"

text \<open>
  The list is open after a scan, the row of \<open>cafe_net\<close> was clicked and a password has
  been typed.
\<close>

definition entering_state :: wifi_state where
  "entering_state = \<lparr>
     wifiStatus = Some \<lparr> status_connected = True, status_ssid = Some ''HomeNet'' \<rparr>,
     networks = [home_net, cafe_net, lab_net], initialLoading = False, loading = False,
     scanning = False, showNetworkList = True, connecting = False,
     selectedNetwork = Some cafe_net, password = ''hunter2'' \<rparr>"

section \<open>StatusPanel.jsx\<close>

record container_status =
  running :: bool
  status :: "string option"

text \<open>
  The snapshot as far as the status derivations read it: each component may be missing,
  and so may its \<^verbatim>\<open>container_status\<close> (the render uses \<^verbatim>\<open>?.\<close> on both levels).
\<close>

record component_info =
  container_status :: "container_status option"

record containers_snapshot =
  video_processor :: "component_info option"
  ros2_sensor :: "component_info option"
  orchestrator :: "component_info option"

record panel_state =
  containersData :: "containers_snapshot option"
  panel_loading :: bool

definition panel_initial :: panel_state where
  "panel_initial = \<lparr> containersData = None, panel_loading = True \<rparr>"

text \<open>
  \<^verbatim>\<open>fetchContainerStatus\<close>: as in the WiFi poller the snapshot is written under
  \<^verbatim>\<open>if (response.data.success)\<close> with no \<^verbatim>\<open>else\<close>; here the \<^verbatim>\<open>catch\<close> block also
  resets the snapshot to null.
\<close>

definition fetchContainerStatus ::
  "containers_snapshot option api_response outcome \<Rightarrow> panel_state \<Rightarrow>
   panel_state \<times> effect list" where
  "fetchContainerStatus r s =
     (case r of
        Resolved response \<Rightarrow>
          ((if success response then s\<lparr>containersData := data response\<rparr> else s)
             \<lparr>panel_loading := False\<rparr>,
           [HttpGet (API_BASE @ ''/containers/status'')])
      | Rejected error \<Rightarrow>
          (s\<lparr>containersData := None, panel_loading := False\<rparr>,
           [HttpGet (API_BASE @ ''/containers/status''),
            ConsoleError ''Failed to fetch container status:'' error]))"

definition getStatusColor :: "container_status option \<Rightarrow> string" where
  "getStatusColor st =
     (case st of
        None \<Rightarrow> ''#6b7280''
      | Some c \<Rightarrow> if running c then ''#10b981'' else ''#ef4444'')"

definition getStatusText :: "container_status option \<Rightarrow> string" where
  "getStatusText st =
     (case st of
        None \<Rightarrow> ''Unknown''
      | Some c \<Rightarrow>
          if running c then ''Running''
          else if status c = Some ''not_found'' then ''Not Found''
          else ''Stopped'')"

text \<open>The three colours by name: Tailwind gray-500, emerald-500 and red-500.\<close>

definition gray :: string where
  "gray = ''#6b7280''"

definition green :: string where
  "green = ''#10b981''"

definition red :: string where
  "red = ''#ef4444''"

text \<open>The status read for a component of the displayed snapshot, as the render does.\<close>

definition shown_status ::
  "(containers_snapshot \<Rightarrow> component_info option) \<Rightarrow> panel_state \<Rightarrow> container_status option" where
  "shown_status pick s =
     (case containersData s of
        None \<Rightarrow> None
      | Some snap \<Rightarrow> (case pick snap of None \<Rightarrow> None | Some c \<Rightarrow> container_status c))"

subsection \<open>A sample snapshot on display\<close>

definition sample_snapshot :: containers_snapshot where
  "sample_snapshot = \<lparr>
     video_processor = Some \<lparr> container_status = Some \<lparr> running = True, status = None \<rparr> \<rparr>,
     ros2_sensor = Some \<lparr> container_status = Some \<lparr> running = False, status = Some ''not_found'' \<rparr> \<rparr>,
     orchestrator = Some \<lparr> container_status = Some \<lparr> running = False, status = Some ''exited'' \<rparr> \<rparr> \<rparr>"

definition panel_showing :: panel_state where
  "panel_showing = \<lparr> containersData = Some sample_snapshot, panel_loading = False \<rparr>"

section \<open>The polling effect of both components\<close>

text \<open>
  Both components end their setup with the same effect, run once after mount because
  its dependency list is empty:
  \<^verbatim>\<open>useEffect(() => { fetch(); const interval = setInterval(fetch, 5000);
  return () => clearInterval(interval); }, [])\<close>
  where \<^verbatim>\<open>fetch\<close> is \<^verbatim>\<open>fetchContainerStatus\<close> in StatusPanel.jsx and \<^verbatim>\<open>fetchWiFiStatus\<close>
  in WiFiStatus.jsx. The function returned by the effect runs at unmount.
\<close>

datatype callback = Call_fetchContainerStatus | Call_fetchWiFiStatus

text \<open>
  The interval timers of the page. A timer has the handle that \<^verbatim>\<open>setInterval\<close>
  returned, the function to call, its delay in milliseconds and the milliseconds left
  until it fires next.
\<close>

record interval_timer =
  handle :: nat
  callback :: callback
  delay :: nat
  remaining :: nat






definition step_timer :: "interval_timer \<Rightarrow> interval_timer" where
  "step_timer t =
     (if remaining t \<le> 1 then t\<lparr>remaining := delay t\<rparr>
      else t\<lparr>remaining := remaining t - 1\<rparr>)"







section \<open>The sample states arise from the initial states\<close>

text \<open>
  \<open>entering_state\<close> is what the component holds after a successful first status poll,
  a successful scan, a click on the row of \<open>cafe_net\<close> and typing a password;
  \<open>panel_showing\<close> is what the status panel holds after one successful poll.
\<close>

lemma entering_state_reachable:
  "entering_state =
     onChange_password ''hunter2''
       (onClick_network cafe_net
         (fst (scanNetworks (Resolved (ApiResponse True [home_net, cafe_net, lab_net]))
           (fst (fetchWiFiStatus
              (Resolved (ApiResponse True
                 (Some \<lparr>status_connected = True, status_ssid = Some ''HomeNet''\<rparr>)))
              wifi_initial)))))"
  by (simp add: entering_state_def onChange_password_def onClick_network_def scanNetworks_def
      fetchWiFiStatus_def wifi_initial_def)

lemma panel_showing_reachable:
  "panel_showing =
     fst (fetchContainerStatus (Resolved (ApiResponse True (Some sample_snapshot))) panel_initial)"
  by (simp add: panel_showing_def fetchContainerStatus_def panel_initial_def)

section \<open>Pure rendering derivations\<close>

text \<open>
  C5. For every integer signal value, \<^verbatim>\<open>getSignalIcon\<close> yields the full-bars icon from
  75 upwards, the three-quarter icon from 50 to 74, the half icon from 25 to 49 and the
  minimal icon below 25. Each tier includes its lower boundary: 75 is full, 74 and 50 are
  three-quarter, 49 and 25 are half, 24 and 0 are minimal. The four icons are pairwise
  different, so the buckets are told apart on screen.
\<close>

theorem getSignalIcon_buckets:
  "(75 \<le> sig \<longrightarrow> getSignalIcon sig = full_bars) \<and>
   (50 \<le> sig \<and> sig < 75 \<longrightarrow> getSignalIcon sig = three_quarter_bars) \<and>
   (25 \<le> sig \<and> sig < 50 \<longrightarrow> getSignalIcon sig = half_bars) \<and>
   (sig < 25 \<longrightarrow> getSignalIcon sig = minimal_bars) \<and>
   getSignalIcon 75 = full_bars \<and> getSignalIcon 74 = three_quarter_bars \<and>
   getSignalIcon 50 = three_quarter_bars \<and> getSignalIcon 49 = half_bars \<and>
   getSignalIcon 25 = half_bars \<and> getSignalIcon 24 = minimal_bars \<and>
   getSignalIcon 0 = minimal_bars \<and>
   distinct [full_bars, three_quarter_bars, half_bars, minimal_bars]"
  by (simp add: getSignalIcon_def full_bars_def three_quarter_bars_def half_bars_def
      minimal_bars_def)

theorem getSignalIcon_buckets_witness:
  "(75::int) \<le> 100 \<and> getSignalIcon 100 = full_bars \<and>
   (50::int) \<le> 60 \<and> (60::int) < 75 \<and> getSignalIcon 60 = three_quarter_bars \<and>
   (25::int) \<le> 30 \<and> (30::int) < 50 \<and> getSignalIcon 30 = half_bars \<and>
   (-5::int) < 25 \<and> getSignalIcon (-5) = minimal_bars"
  using getSignalIcon_buckets [of 100] getSignalIcon_buckets [of 60]
    getSignalIcon_buckets [of 30] getSignalIcon_buckets [of "-5"]
  by simp

text \<open>
  C6. For every component status record: when the record is absent the colour is gray
  and the text is Unknown; when \<^verbatim>\<open>running\<close> is true the colour is green and the text is
  Running; when \<^verbatim>\<open>running\<close> is false and \<^verbatim>\<open>status\<close> is \<^verbatim>\<open>not_found\<close> the colour is red and
  the text is Not Found; when \<^verbatim>\<open>running\<close> is false with any other status, or none, the
  colour is red and the text is Stopped. The three colours differ.
\<close>

theorem status_rendering:
  "getStatusColor None = gray \<and> getStatusText None = ''Unknown'' \<and>
   (running c \<longrightarrow>
      getStatusColor (Some c) = green \<and> getStatusText (Some c) = ''Running'') \<and>
   (\<not> running c \<and> status c = Some ''not_found'' \<longrightarrow>
      getStatusColor (Some c) = red \<and> getStatusText (Some c) = ''Not Found'') \<and>
   (\<not> running c \<and> status c \<noteq> Some ''not_found'' \<longrightarrow>
      getStatusColor (Some c) = red \<and> getStatusText (Some c) = ''Stopped'') \<and>
   distinct [gray, green, red]"
  by (simp add: getStatusColor_def getStatusText_def gray_def green_def red_def)

theorem status_rendering_witness:
  "running \<lparr>running = True, status = Some ''not_found''\<rparr> \<and>
   getStatusColor (Some \<lparr>running = True, status = Some ''not_found''\<rparr>) = green \<and>
   getStatusText (Some \<lparr>running = True, status = Some ''not_found''\<rparr>) = ''Running'' \<and>
   \<not> running \<lparr>running = False, status = Some ''not_found''\<rparr> \<and>
   status \<lparr>running = False, status = Some ''not_found''\<rparr> = Some ''not_found'' \<and>
   getStatusColor (Some \<lparr>running = False, status = Some ''not_found''\<rparr>) = red \<and>
   getStatusText (Some \<lparr>running = False, status = Some ''not_found''\<rparr>) = ''Not Found'' \<and>
   \<not> running \<lparr>running = False, status = None\<rparr> \<and>
   status \<lparr>running = False, status = None\<rparr> \<noteq> Some ''not_found'' \<and>
   getStatusColor (Some \<lparr>running = False, status = None\<rparr>) = red \<and>
   getStatusText (Some \<lparr>running = False, status = None\<rparr>) = ''Stopped''"
  using status_rendering [of "\<lparr>running = True, status = Some ''not_found''\<rparr>"]
    status_rendering [of "\<lparr>running = False, status = Some ''not_found''\<rparr>"]
    status_rendering [of "\<lparr>running = False, status = None\<rparr>"]
  by simp

section \<open>The two pollers\<close>

text \<open>
  C2, as the code has it. \<^verbatim>\<open>fetchContainerStatus\<close> treats the two kinds of failure
  differently. When the request rejects (transport failure) the snapshot is reset to
  null, so that every component renders gray Unknown, and the error is logged. When the
  request resolves with \<^verbatim>\<open>success:false\<close> the snapshot on display is left as it was and
  nothing is logged. When it resolves with \<^verbatim>\<open>success:true\<close> the snapshot is replaced
  wholesale by the \<^verbatim>\<open>data\<close> of the response. No outcome raises an alert, and every
  outcome ends the loading phase.
\<close>

theorem fetchContainerStatus_outcomes:
  "fetchContainerStatus (Rejected e) s =
     (s\<lparr>containersData := None, panel_loading := False\<rparr>,
      [HttpGet (API_BASE @ ''/containers/status''),
       ConsoleError ''Failed to fetch container status:'' e]) \<and>
   getStatusText (shown_status pick (fst (fetchContainerStatus (Rejected e) s))) = ''Unknown'' \<and>
   getStatusColor (shown_status pick (fst (fetchContainerStatus (Rejected e) s))) = gray \<and>
   (success response \<longrightarrow>
      fetchContainerStatus (Resolved response) s =
        (s\<lparr>containersData := data response, panel_loading := False\<rparr>,
         [HttpGet (API_BASE @ ''/containers/status'')])) \<and>
   (\<not> success response \<longrightarrow>
      fetchContainerStatus (Resolved response) s =
        (s\<lparr>panel_loading := False\<rparr>, [HttpGet (API_BASE @ ''/containers/status'')])) \<and>
   \<not> list_ex is_alert (snd (fetchContainerStatus r s))"
  by (cases r) (simp_all add: fetchContainerStatus_def shown_status_def getStatusText_def
      getStatusColor_def gray_def)

theorem fetchContainerStatus_outcomes_witness:
  "success (ApiResponse True (None :: containers_snapshot option)) \<and>
   fetchContainerStatus (Resolved (ApiResponse True None)) panel_showing =
     (\<lparr>containersData = None, panel_loading = False\<rparr>, [HttpGet ''/api/containers/status'']) \<and>
   \<not> success (ApiResponse False (None :: containers_snapshot option)) \<and>
   fetchContainerStatus (Resolved (ApiResponse False None)) panel_showing =
     (panel_showing, [HttpGet ''/api/containers/status''])"
  using fetchContainerStatus_outcomes [of _ panel_showing _ "ApiResponse True None"]
    fetchContainerStatus_outcomes [of _ panel_showing _ "ApiResponse False None"]
  by (simp add: panel_showing_def API_BASE_def)

text \<open>
  C2 as it is written asks that a \<^verbatim>\<open>success:false\<close> response clears the snapshot and
  logs the error. With a snapshot on display, such a response leaves that snapshot in
  place (the video processor still reads Running), and the only effect is the request.
\<close>

theorem fetchContainerStatus_soft_failure_counterexample:
  "containersData (fst (fetchContainerStatus (Resolved (ApiResponse False None)) panel_showing))
     = Some sample_snapshot \<and>
   containersData (fst (fetchContainerStatus (Resolved (ApiResponse False None)) panel_showing))
     \<noteq> None \<and>
   getStatusText (shown_status video_processor
     (fst (fetchContainerStatus (Resolved (ApiResponse False None)) panel_showing))) = ''Running'' \<and>
   \<not> list_ex is_log (snd (fetchContainerStatus (Resolved (ApiResponse False None)) panel_showing))"
  by (simp add: fetchContainerStatus_def panel_showing_def sample_snapshot_def shown_status_def
      getStatusText_def)

text \<open>
  C7, as the code has it. On every failed WiFi status poll, by rejection or by a
  \<^verbatim>\<open>success:false\<close> response, \<^verbatim>\<open>fetchWiFiStatus\<close> leaves the WiFi status snapshot as it
  was. A rejection is logged, and that is all it emits besides the request; a
  \<^verbatim>\<open>success:false\<close> response emits nothing, not even a log entry. No outcome raises an
  alert.
\<close>

theorem fetchWiFiStatus_failure:
  "wifiStatus (fst (fetchWiFiStatus (Rejected e) s)) = wifiStatus s \<and>
   snd (fetchWiFiStatus (Rejected e) s) =
     [HttpGet (API_BASE @ ''/wifi/status''), ConsoleError ''Failed to fetch WiFi status:'' e] \<and>
   (\<not> success response \<longrightarrow>
      wifiStatus (fst (fetchWiFiStatus (Resolved response) s)) = wifiStatus s \<and>
      snd (fetchWiFiStatus (Resolved response) s) = [HttpGet (API_BASE @ ''/wifi/status'')]) \<and>
   \<not> list_ex is_alert (snd (fetchWiFiStatus r s))"
  by (cases r) (simp_all add: fetchWiFiStatus_def)

theorem fetchWiFiStatus_failure_witness:
  "\<not> success (ApiResponse False (None :: wifi_status_data option)) \<and>
   wifiStatus (fst (fetchWiFiStatus (Resolved (ApiResponse False None)) entering_state)) =
     Some \<lparr>status_connected = True, status_ssid = Some ''HomeNet''\<rparr> \<and>
   snd (fetchWiFiStatus (Resolved (ApiResponse False None)) entering_state) =
     [HttpGet ''/api/wifi/status'']"
  using fetchWiFiStatus_failure [of _ entering_state "ApiResponse False None"]
  by (simp add: entering_state_def API_BASE_def)

text \<open>
  C7 as it is written has every failed poll emit a logged error. A \<^verbatim>\<open>success:false\<close>
  response is a failed poll and no \<^verbatim>\<open>console.error\<close> is among its effects.
\<close>

theorem fetchWiFiStatus_soft_failure_counterexample:
  "\<not> success (ApiResponse False (None :: wifi_status_data option)) \<and>
   \<not> list_ex is_log (snd (fetchWiFiStatus (Resolved (ApiResponse False None)) entering_state))"
  by (simp add: fetchWiFiStatus_def)

section \<open>Connecting to the selected network\<close>

text \<open>
  In this section \<^verbatim>\<open>connectToNetwork\<close> runs to completion on the state it was called
  in: no other event is handled between the call and the end of its \<^verbatim>\<open>finally\<close> block.
\<close>

lemma fetchWiFiStatus_effects:
  "snd (fetchWiFiStatus rs s) =
     HttpGet (API_BASE @ ''/wifi/status'') #
     (case rs of Rejected e \<Rightarrow> [ConsoleError ''Failed to fetch WiFi status:'' e]
               | Resolved _ \<Rightarrow> [])"
  by (simp add: fetchWiFiStatus_def split: outcome.split)

lemma fetchWiFiStatus_frame:
  "selectedNetwork (fst (fetchWiFiStatus rs s)) = selectedNetwork s \<and>
   password (fst (fetchWiFiStatus rs s)) = password s \<and>
   showNetworkList (fst (fetchWiFiStatus rs s)) = showNetworkList s \<and>
   networks (fst (fetchWiFiStatus rs s)) = networks s \<and>
   connecting (fst (fetchWiFiStatus rs s)) = connecting s"
  by (simp add: fetchWiFiStatus_def split: outcome.split)

text \<open>
  C9. When no network is selected, \<^verbatim>\<open>connectToNetwork\<close> does nothing: the state is
  returned as it was and there is no effect at all, hence no request and no alert. The
  other way round, every connect request that is issued carries the ssid of the network
  selected at the call and the password held then, so the body is never built from a
  null selection.
\<close>

theorem connectToNetwork_without_selection:
  "(selectedNetwork s = None \<longrightarrow> connectToNetwork r rs s = (s, [])) \<and>
   (HttpPost u a b \<in> set (snd (connectToNetwork r rs s)) \<longrightarrow>
      (\<exists>n. selectedNetwork s = Some n \<and> u = API_BASE @ ''/wifi/connect'' \<and>
           a = ssid n \<and> b = password s))"
  by (cases "selectedNetwork s"; cases r; cases rs)
     (auto simp add: connectToNetwork_def Let_def fetchWiFiStatus_def)

theorem connectToNetwork_without_selection_witness:
  "selectedNetwork wifi_initial = None \<and>
   connectToNetwork (Resolved (ConnectResponse True None)) (Rejected ''offline'') wifi_initial =
     (wifi_initial, []) \<and>
   HttpPost ''/api/wifi/connect'' ''Cafe'' ''hunter2'' \<in>
     set (snd (connectToNetwork (Rejected ''timeout'') (Rejected ''offline'') entering_state)) \<and>
   selectedNetwork entering_state = Some cafe_net"
  using connectToNetwork_without_selection [where s = wifi_initial
      and r = "Resolved (ConnectResponse True None)" and rs = "Rejected ''offline''"]
    connectToNetwork_without_selection [where u = "''/api/wifi/connect''" and a = "''Cafe''"
      and b = "''hunter2''" and r = "Rejected ''timeout''" and rs = "Rejected ''offline''"
      and s = entering_state]
  by (simp add: wifi_initial_def entering_state_def cafe_net_def connectToNetwork_def
      API_BASE_def)

text \<open>
  C4. When a network is selected and the connect request resolves with \<^verbatim>\<open>success:true\<close>,
  \<^verbatim>\<open>connectToNetwork\<close> ends with no selected network, the empty password, the network
  list closed (so neither the list nor the credential form is rendered) and
  \<^verbatim>\<open>connecting\<close> reset. Its effects are the connect request followed at once by a GET of
  the WiFi status, issued by the handler itself and not by the 5 second timer, and by
  the log entry of that GET should it fail.
\<close>

theorem connectToNetwork_accepted:
  assumes "selectedNetwork s = Some n" and "connect_success response"
  shows "selectedNetwork (fst (connectToNetwork (Resolved response) rs s)) = None \<and>
         password (fst (connectToNetwork (Resolved response) rs s)) = [] \<and>
         \<not> showNetworkList (fst (connectToNetwork (Resolved response) rs s)) \<and>
         \<not> connecting (fst (connectToNetwork (Resolved response) rs s)) \<and>
         \<not> credentialFormShown (fst (connectToNetwork (Resolved response) rs s)) \<and>
         \<not> listShown (fst (connectToNetwork (Resolved response) rs s)) \<and>
         snd (connectToNetwork (Resolved response) rs s) =
           HttpPost (API_BASE @ ''/wifi/connect'') (ssid n) (password s) #
           HttpGet (API_BASE @ ''/wifi/status'') #
           (case rs of Rejected e \<Rightarrow> [ConsoleError ''Failed to fetch WiFi status:'' e]
                     | Resolved _ \<Rightarrow> [])"
  using assms fetchWiFiStatus_frame
  by (simp add: connectToNetwork_def Let_def fetchWiFiStatus_effects credentialFormShown_def
      listShown_def)

theorem connectToNetwork_accepted_witness:
  "selectedNetwork entering_state = Some cafe_net \<and>
   connect_success (ConnectResponse True None) \<and>
   fst (connectToNetwork (Resolved (ConnectResponse True None))
     (Resolved (ApiResponse True (Some \<lparr>status_connected = True, status_ssid = Some ''Cafe''\<rparr>)))
     entering_state) =
     entering_state\<lparr>selectedNetwork := None, password := [], showNetworkList := False,
       wifiStatus := Some \<lparr>status_connected = True, status_ssid = Some ''Cafe''\<rparr>\<rparr> \<and>
   snd (connectToNetwork (Resolved (ConnectResponse True None))
     (Resolved (ApiResponse True (Some \<lparr>status_connected = True, status_ssid = Some ''Cafe''\<rparr>)))
     entering_state) =
     [HttpPost ''/api/wifi/connect'' ''Cafe'' ''hunter2'', HttpGet ''/api/wifi/status'']"
  using connectToNetwork_accepted [of entering_state cafe_net "ConnectResponse True None"
      "Resolved (ApiResponse True (Some \<lparr>status_connected = True, status_ssid = Some ''Cafe''\<rparr>))"]
  by (simp add: entering_state_def cafe_net_def API_BASE_def connectToNetwork_def
      fetchWiFiStatus_def)

text \<open>
  C1, as the code has it. When a network is selected and the connect request resolves
  with \<^verbatim>\<open>success:false\<close>, \<^verbatim>\<open>connectToNetwork\<close> raises one alert, whose text is the
  message of the response, or Failed to connect when the message is missing or empty.
  The state it leaves is the state of the call with \<^verbatim>\<open>connecting\<close> reset: the network
  list stays as it was (open, when the form was in use), and the connection attempt is
  kept, the selected network and the typed password both unchanged.
\<close>

theorem connectToNetwork_refused:
  assumes "selectedNetwork s = Some n" and "\<not> connect_success response"
  shows "fst (connectToNetwork (Resolved response) rs s) = s\<lparr>connecting := False\<rparr> \<and>
         snd (connectToNetwork (Resolved response) rs s) =
           [HttpPost (API_BASE @ ''/wifi/connect'') (ssid n) (password s),
            Alert (case message response of
                     None \<Rightarrow> ''Failed to connect''
                   | Some m \<Rightarrow> if m = [] then ''Failed to connect'' else m)] \<and>
         selectedNetwork (fst (connectToNetwork (Resolved response) rs s)) = Some n \<and>
         password (fst (connectToNetwork (Resolved response) rs s)) = password s \<and>
         showNetworkList (fst (connectToNetwork (Resolved response) rs s)) = showNetworkList s"
  using assms by (simp add: connectToNetwork_def or_else_def)

theorem connectToNetwork_refused_witness:
  "selectedNetwork entering_state = Some cafe_net \<and>
   \<not> connect_success (ConnectResponse False (Some ''bad password'')) \<and>
   fst (connectToNetwork (Resolved (ConnectResponse False (Some ''bad password'')))
          (Rejected ''not issued'') entering_state) = entering_state \<and>
   snd (connectToNetwork (Resolved (ConnectResponse False (Some ''bad password'')))
          (Rejected ''not issued'') entering_state) =
     [HttpPost ''/api/wifi/connect'' ''Cafe'' ''hunter2'', Alert ''bad password'']"
  using connectToNetwork_refused [of entering_state cafe_net
      "ConnectResponse False (Some ''bad password'')" "Rejected ''not issued''"]
  by (simp add: entering_state_def cafe_net_def API_BASE_def)

text \<open>
  C1 as it is written has the failed attempt cleared. After a \<^verbatim>\<open>success:false\<close> response
  with message bad password, the selection is still \<open>cafe_net\<close> and the password field
  still holds what was typed.
\<close>

theorem connectToNetwork_refused_counterexample:
  "selectedNetwork (fst (connectToNetwork
      (Resolved (ConnectResponse False (Some ''bad password'')))
      (Rejected ''not issued'') entering_state)) = Some cafe_net \<and>
   password (fst (connectToNetwork
      (Resolved (ConnectResponse False (Some ''bad password'')))
      (Rejected ''not issued'') entering_state)) = ''hunter2'' \<and>
   \<not> (selectedNetwork (fst (connectToNetwork
          (Resolved (ConnectResponse False (Some ''bad password'')))
          (Rejected ''not issued'') entering_state)) = None \<and>
      password (fst (connectToNetwork
          (Resolved (ConnectResponse False (Some ''bad password'')))
          (Rejected ''not issued'') entering_state)) = [])"
  by (simp add: connectToNetwork_def entering_state_def)

section \<open>Clicking a row of the network list\<close>

text \<open>
  C3, as the code has it. Clicking a row whose entry has \<^verbatim>\<open>connected:true\<close> makes that
  entry the selected network, and in the state that results the credential form is not
  rendered, whatever the state before the click. Clicking a row whose entry has
  \<^verbatim>\<open>connected:false\<close>, in a state where the list is shown, results in a state where the
  credential form is rendered and the selected network is the clicked entry.
\<close>

theorem onClick_network_credential_step:
  "(connected network \<longrightarrow>
      onClick_network network s = s\<lparr>selectedNetwork := Some network\<rparr> \<and>
      \<not> credentialFormShown (onClick_network network s)) \<and>
   (\<not> connected network \<and> listShown s \<longrightarrow>
      credentialFormShown (onClick_network network s) \<and>
      selectedNetwork (onClick_network network s) = Some network)"
  by (simp add: onClick_network_def credentialFormShown_def listShown_def)

theorem onClick_network_credential_step_witness:
  "connected home_net \<and>
   \<not> credentialFormShown (onClick_network home_net entering_state) \<and>
   \<not> connected lab_net \<and> listShown entering_state \<and>
   credentialFormShown (onClick_network lab_net entering_state) \<and>
   selectedNetwork (onClick_network lab_net entering_state) = Some lab_net"
  using onClick_network_credential_step [of home_net entering_state]
    onClick_network_credential_step [of lab_net entering_state]
  by (simp add: home_net_def lab_net_def entering_state_def listShown_def
      credentialFormShown_def onClick_network_def)

text \<open>
  C3 as it is written calls the click on the connected entry inert. With the credential
  form open for \<open>cafe_net\<close>, a click on the row of the connected \<open>home_net\<close> changes the
  state: the selection moves to \<open>home_net\<close> and the credential form is no longer
  rendered.
\<close>

theorem onClick_network_not_inert_counterexample:
  "connected home_net \<and> rowShown home_net entering_state \<and>
   credentialFormShown entering_state \<and>
   \<not> credentialFormShown (onClick_network home_net entering_state) \<and>
   selectedNetwork (onClick_network home_net entering_state) = Some home_net \<and>
   onClick_network home_net entering_state \<noteq> entering_state"
  by (simp add: onClick_network_def credentialFormShown_def listShown_def rowShown_def
      entering_state_def home_net_def cafe_net_def)

text \<open>
  C10. In a state where the credential form is rendered, whatever has been typed so far,
  a click on the row of an entry that is not connected changes the selected network and
  nothing else. The password is unchanged and the credential form stays rendered, now
  for the clicked entry, so a connect request sent from there carries the ssid of the
  clicked entry together with the password that was typed before the click.
\<close>

theorem onClick_network_keeps_password:
  assumes "credentialFormShown s" and "\<not> connected network"
  shows "onClick_network network s = s\<lparr>selectedNetwork := Some network\<rparr> \<and>
         password (onClick_network network s) = password s \<and>
         credentialFormShown (onClick_network network s) \<and>
         selectedNetwork (onClick_network network s) = Some network \<and>
         hd (snd (connectToNetwork r rs (onClick_network network s))) =
           HttpPost (API_BASE @ ''/wifi/connect'') (ssid network) (password s)"
  using assms
  by (cases r) (simp_all add: onClick_network_def credentialFormShown_def listShown_def
      connectToNetwork_def Let_def)

theorem onClick_network_keeps_password_witness:
  "credentialFormShown entering_state \<and> \<not> connected lab_net \<and>
   onClick_network lab_net entering_state = entering_state\<lparr>selectedNetwork := Some lab_net\<rparr> \<and>
   password (onClick_network lab_net entering_state) = ''hunter2'' \<and>
   hd (snd (connectToNetwork (Rejected ''timeout'') (Rejected ''offline'')
          (onClick_network lab_net entering_state))) =
     HttpPost ''/api/wifi/connect'' ''Lab'' ''hunter2''"
  using onClick_network_keeps_password [of entering_state lab_net "Rejected ''timeout''"
      "Rejected ''offline''"]
  by (simp add: credentialFormShown_def listShown_def entering_state_def lab_net_def
      cafe_net_def API_BASE_def onClick_network_def connectToNetwork_def)

section \<open>Polling while mounted, silence after unmount\<close>

lemma step_timer_keeps [simp]:
  "handle (step_timer t) = handle t" "callback (step_timer t) = callback t"
  "delay (step_timer t) = delay t"
  by (simp_all add: step_timer_def)










end
